theory Spec2Isabelle
  imports Complex_Main
begin

section \<open>The diffraction projection window (show\_diff\_proj.py)\<close>

text \<open>
  The program is one window class, \<open>DiffractionWindow\<close>, whose methods are the handlers
  of the user interface: \<open>browseFile\<close> (menu entry), \<open>imagePressed\<close>, \<open>imageOnMotion\<close>,
  \<open>imageReleased\<close> (mouse events of the canvas) and \<open>show_projection\<close> (the button).
  Each handler is embedded as a function on a record of the window's fields.

  Numbers. Pixel values and mouse coordinates are modelled as exact reals: rounding of
  float32/float64 arithmetic and wrap-around of integer dtypes are not modelled. What numpy
  does at a zero divisor is modelled (\<open>np_divide\<close>), since the display buffer depends on it.
\<close>

subsection \<open>Arrays and numpy operations\<close>

datatype error = ValueError | TypeError | DecodeError

text \<open>A float64 produced by numpy's true division: finite, or one of the special values.\<close>

datatype npfloat = Finite real | NaN | PosInf | NegInf

text \<open>
  \<open>a / b\<close> on arrays never raises: a zero divisor gives \<open>nan\<close> for \<open>0 / 0\<close> and an
  infinity otherwise (with a RuntimeWarning only).
\<close>

definition np_divide :: "real \<Rightarrow> real \<Rightarrow> npfloat" where
  "np_divide a b =
     (if b \<noteq> 0 then Finite (a / b)
      else if a = 0 then NaN
      else if 0 < a then PosInf else NegInf)"

text \<open>
  A decoded image: a 2D array (rows of pixels) or a 3D array (rows of pixels, each a list
  of channel values). The tests \<open>img.ndim == 2\<close> and \<open>img.ndim > 2\<close> of the source are the
  case distinction on the constructor. Arrays are rectangular; \<open>rectangular\<close> says so for
  the 2D case.
\<close>

datatype ndarray = Gray "real list list" | Multi "real list list list"

definition rectangular :: "nat \<Rightarrow> 'a list list \<Rightarrow> bool" where
  "rectangular w px = list_all (\<lambda>row. length row = w) px"

text \<open>
  \<open>np.min\<close> and \<open>np.max\<close> over all elements; on an array with no element they raise
  ValueError (a reduction with no identity).
\<close>

definition np_min :: "real list list \<Rightarrow> error + real" where
  "np_min px = (case concat px of [] \<Rightarrow> Inl ValueError | x # xs \<Rightarrow> Inr (fold min xs x))"

definition np_max :: "real list list \<Rightarrow> error + real" where
  "np_max px = (case concat px of [] \<Rightarrow> Inl ValueError | x # xs \<Rightarrow> Inr (fold max xs x))"

text \<open>
  Line 205: \<open>img = (img - np.min(img)) / (np.max(img) - np.min(img))\<close>.
\<close>

definition rescale :: "real list list \<Rightarrow> error + npfloat list list" where
  "rescale img =
     (case np_min img of
        Inl e \<Rightarrow> Inl e
      | Inr lo \<Rightarrow>
          (case np_max img of
             Inl e \<Rightarrow> Inl e
           | Inr hi \<Rightarrow> Inr (map (map (\<lambda>p. np_divide (p - lo) (hi - lo))) img)))"

text \<open>Python's \<open>int(x)\<close> on a float truncates toward zero.\<close>

definition py_int :: "real \<Rightarrow> int" where
  "py_int x = (if 0 \<le> x then \<lfloor>x\<rfloor> else \<lceil>x\<rceil>)"

text \<open>
  A slice bound against an axis of length \<open>n\<close>: a negative bound counts from the end, and the
  result is clamped to \<open>[0, n]\<close>. \<open>xs[lo:hi]\<close> is empty when the bounds cross. No bound raises.
\<close>

definition slice_index :: "nat \<Rightarrow> int \<Rightarrow> nat" where
  "slice_index n i = (if i < 0 then nat (max 0 (i + int n)) else min (nat i) n)"

definition py_slice :: "int \<Rightarrow> int \<Rightarrow> 'a list \<Rightarrow> 'a list" where
  "py_slice lo hi xs =
     (let l = slice_index (length xs) lo; h = slice_index (length xs) hi
      in take (h - l) (drop l xs))"

subsection \<open>Formatting integers in the status text\<close>

definition digit_char :: "nat \<Rightarrow> char" where
  "digit_char d = ''0123456789'' ! d"

function str_nat :: "nat \<Rightarrow> string" where
  "str_nat n = (if n < 10 then [digit_char n] else str_nat (n div 10) @ [digit_char (n mod 10)])"
  by pat_completeness auto
termination
  by (relation "measure (\<lambda>n. n)") auto

declare str_nat.simps [simp del]

definition str_int :: "int \<Rightarrow> string" where
  "str_int i = (if i < 0 then ''-'' @ str_nat (nat (- i)) else str_nat (nat i))"

subsection \<open>The window's state\<close>

text \<open>
  A \<open>patches.Rectangle\<close> as the program builds it: anchor, width, height (either may be
  negative) and line width (1 for the preview, 2 for the committed rectangle).
\<close>

record rectangle =
  rect_xy :: "real \<times> real"
  rect_width :: real
  rect_height :: real
  rect_linewidth :: nat

text \<open>What \<open>imshow\<close> was handed: the rescaled buffer of a 2D image, or a 3D image as it is.\<close>

datatype shown = ShownGray "npfloat list list" | ShownRaw "real list list list"

text \<open>
  Rectangle patches are objects shared between the window's fields and the axes, and
  \<open>set_bounds\<close> mutates them in place: they live in \<open>patch_heap\<close> and are referred to by
  index (every reference of a reachable window points into the heap, see \<open>inv\<close>).
  \<open>axes_patches\<close> are the patches drawn on the axes, \<open>axes_image\<close> the image drawn there;
  the renderer's own checks of what \<open>imshow\<close> is handed are not part of the program.
  \<open>canvas_visible\<close> follows \<open>canvas.hide()\<close> / \<open>canvas.show()\<close>, \<open>showProjBtn_enabled\<close>
  follows \<open>showProjBtn.setEnabled\<close> and \<open>coord_label\<close> follows \<open>coord_label.setText\<close>.
\<close>

record window =
  image :: "ndarray option"
  start_point :: "(real \<times> real) option"
  rect_patch :: "nat option"
  last_rect_patch :: "nat option"
  showProjBtn_enabled :: bool
  coord_label :: string
  canvas_visible :: bool
  axes_image :: "shown option"
  axes_patches :: "nat list"
  patch_heap :: "rectangle list"

text \<open>The state at the end of \<open>__init__\<close>.\<close>

definition init_window :: window where
  "init_window =
     \<lparr>image = None, start_point = None, rect_patch = None, last_rect_patch = None,
      showProjBtn_enabled = False, coord_label = ''Mouse: '', canvas_visible = False,
      axes_image = None, axes_patches = [], patch_heap = []\<rparr>"

text \<open>A mouse event of the canvas: whether it lies in the axes, and its data coordinates.\<close>

record mouse_event =
  inaxes :: bool
  xdata :: real
  ydata :: real

text \<open>
  \<open>patches.Rectangle(...)\<close> followed by \<open>axes.add_patch\<close>: a new object, appended to the
  artists of the axes. The reference of the new object is \<open>length (patch_heap self)\<close>.
\<close>

definition add_patch :: "rectangle \<Rightarrow> window \<Rightarrow> window" where
  "add_patch r self =
     self\<lparr>axes_patches := axes_patches self @ [length (patch_heap self)],
          patch_heap := patch_heap self @ [r]\<rparr>"

text \<open>
  \<open>patch.remove()\<close> takes the patch off the axes. On a patch that \<open>ax.cla()\<close> has already
  dropped it changes nothing on the axes and does not raise. The handlers call it once per
  patch and then forget the reference.
\<close>

definition patch_remove :: "nat \<Rightarrow> window \<Rightarrow> window" where
  "patch_remove p self = self\<lparr>axes_patches := remove1 p (axes_patches self)\<rparr>"

subsection \<open>Mouse handlers\<close>

definition imagePressed :: "mouse_event \<Rightarrow> window \<Rightarrow> window" where
  "imagePressed event self =
     (if \<not> inaxes event then self
      else case start_point self of
        None \<Rightarrow>
          (let x0 = xdata event; y0 = ydata event;
               self = self\<lparr>start_point := Some (x0, y0)\<rparr>;
               self = self\<lparr>coord_label :=
                        ''Rect: x0='' @ str_int (py_int x0) @ '' y0='' @ str_int (py_int y0)\<rparr>;
               self = self\<lparr>showProjBtn_enabled := False\<rparr>
           in case last_rect_patch self of
                Some p \<Rightarrow> (patch_remove p self)\<lparr>last_rect_patch := None\<rparr>
              | None \<Rightarrow> self)
      | Some (x0, y0) \<Rightarrow>
          (let x1 = xdata event; y1 = ydata event;
               width = x1 - x0; height = y1 - y0;
               new = length (patch_heap self);
               self = add_patch \<lparr>rect_xy = (x0, y0), rect_width = width,
                                 rect_height = height, rect_linewidth = 2\<rparr> self;
               self = self\<lparr>last_rect_patch := Some new\<rparr>;
               self = self\<lparr>start_point := None\<rparr>;
               self = (case rect_patch self of
                         Some p \<Rightarrow> (patch_remove p self)\<lparr>rect_patch := None\<rparr>
                       | None \<Rightarrow> self)
           in self\<lparr>showProjBtn_enabled := True\<rparr>))"

definition imageOnMotion :: "mouse_event \<Rightarrow> window \<Rightarrow> window" where
  "imageOnMotion event self =
     (if \<not> inaxes event then self
      else case start_point self of
        None \<Rightarrow> self
      | Some (x0, y0) \<Rightarrow>
          (let x1 = xdata event; y1 = ydata event;
               width = x1 - x0; height = y1 - y0;
               self = self\<lparr>coord_label :=
                        ''Rect: x0='' @ str_int (py_int x0) @ '' y0='' @ str_int (py_int y0)
                        @ '', x1='' @ str_int (py_int x1) @ '', y1='' @ str_int (py_int y1)\<rparr>
           in case rect_patch self of
                Some p \<Rightarrow>
                  self\<lparr>patch_heap := (patch_heap self)
                          [p := (patch_heap self ! p)\<lparr>rect_xy := (x0, y0), rect_width := width,
                                                     rect_height := height\<rparr>]\<rparr>
              | None \<Rightarrow>
                  (let new = length (patch_heap self);
                       self = add_patch \<lparr>rect_xy = (x0, y0), rect_width = width,
                                         rect_height = height, rect_linewidth = 1\<rparr> self
                   in self\<lparr>rect_patch := Some new\<rparr>)))"

definition imageReleased :: "mouse_event \<Rightarrow> window \<Rightarrow> window" where
  "imageReleased event self = self"

subsection \<open>Loading an image\<close>

text \<open>
  The argument is what the file dialog and the decoder gave: \<open>None\<close> when no file was
  selected, \<open>Some (Inl e)\<close> when the decoder raised, \<open>Some (Inr arr)\<close> the decoded array.
  A raise is \<open>Inl\<close> with the window as it stands at that moment: the assignments before the
  raise have happened.
\<close>

definition browseFile :: "(error + ndarray) option \<Rightarrow> window \<Rightarrow> error \<times> window + window" where
  "browseFile picked self =
     (case picked of
        None \<Rightarrow> Inr self
      | Some (Inl e) \<Rightarrow> Inl (e, self)
      | Some (Inr arr) \<Rightarrow>
          (let self = self\<lparr>image := Some arr\<rparr>;
               self = self\<lparr>axes_image := None, axes_patches := []\<rparr>;
               drawn =
                 (case arr of
                    Gray img \<Rightarrow>
                      (case rescale img of
                         Inl e \<Rightarrow> Inl (e, self)
                       | Inr img' \<Rightarrow> Inr (self\<lparr>axes_image := Some (ShownGray img')\<rparr>))
                  | Multi img \<Rightarrow> Inr (self\<lparr>axes_image := Some (ShownRaw img)\<rparr>))
           in case drawn of
                Inl e \<Rightarrow> Inl e
              | Inr self \<Rightarrow>
                  Inr (self\<lparr>canvas_visible := True, coord_label := ''Mouse: '',
                            showProjBtn_enabled := False\<rparr>)))"

subsection \<open>The projection\<close>

text \<open>\<open>get_bbox().get_points()\<close>: the anchor and the anchor moved by width and height.\<close>

definition get_points :: "rectangle \<Rightarrow> (real \<times> real) \<times> (real \<times> real)" where
  "get_points r =
     (rect_xy r, (fst (rect_xy r) + rect_width r, snd (rect_xy r) + rect_height r))"

text \<open>Lines 228 to 231: the truncated bounds \<open>(x0, x1, y0, y1)\<close>.\<close>

definition crop_bounds :: "rectangle \<Rightarrow> int \<times> int \<times> int \<times> int" where
  "crop_bounds r =
     (let ((xa, ya), (xb, yb)) = get_points r
      in (py_int (min xa xb), py_int (max xa xb), py_int (min ya yb), py_int (max ya yb)))"

text \<open>Lines 233 and 234: the crop and the sum of every row of it.\<close>

definition pixel_sums :: "real list list \<Rightarrow> int \<times> int \<times> int \<times> int \<Rightarrow> real list" where
  "pixel_sums img b =
     (case b of (x0, x1, y0, y1) \<Rightarrow>
        (let region = map (py_slice x0 x1) (py_slice y0 y1 img)
         in map sum_list region))"

text \<open>
  \<open>convert_L\<close> stands for \<open>np.array(Image.fromarray(img).convert("L"))\<close>, the conversion of
  a 3D array to one channel by the imaging library, which may raise. The result pairs the
  window with the data handed to the modal \<open>PlotDialog\<close>, \<open>None\<close> when no dialog is shown.
\<close>

definition show_projection ::
  "(real list list list \<Rightarrow> error + real list list) \<Rightarrow> window
     \<Rightarrow> error \<times> window + window \<times> real list option" where
  "show_projection convert_L self =
     (case image self of
        None \<Rightarrow> Inr (self, None)
      | Some arr \<Rightarrow>
          (case last_rect_patch self of
             None \<Rightarrow> Inr (self, None)
           | Some p \<Rightarrow>
               (case (case arr of Gray img \<Rightarrow> Inr img | Multi img \<Rightarrow> convert_L img) of
                  Inl e \<Rightarrow> Inl (e, self)
                | Inr img \<Rightarrow>
                    Inr (self, Some (pixel_sums img (crop_bounds (patch_heap self ! p)))))))"

subsection \<open>The event loop\<close>

text \<open>
  The events the toolkit delivers. A hidden canvas receives no mouse event and a disabled
  button emits no click. An exception raised by a handler is reported and the event loop
  goes on with the window as the handler left it.
\<close>

datatype ui_event =
    SelectImage "(error + ndarray) option"
  | ButtonPress mouse_event
  | MotionNotify mouse_event
  | ButtonRelease mouse_event
  | ShowProjClicked

definition after :: "error \<times> window + window \<Rightarrow> window" where
  "after r = (case r of Inl (e, self) \<Rightarrow> self | Inr self \<Rightarrow> self)"

fun dispatch ::
  "(real list list list \<Rightarrow> error + real list list) \<Rightarrow> window \<Rightarrow> ui_event \<Rightarrow> window" where
  "dispatch cv self (SelectImage picked) = after (browseFile picked self)"
| "dispatch cv self (ButtonPress ev) = (if canvas_visible self then imagePressed ev self else self)"
| "dispatch cv self (MotionNotify ev) = (if canvas_visible self then imageOnMotion ev self else self)"
| "dispatch cv self (ButtonRelease ev) = (if canvas_visible self then imageReleased ev self else self)"
| "dispatch cv self ShowProjClicked =
     (if showProjBtn_enabled self
      then (case show_projection cv self of Inl (e, self') \<Rightarrow> self' | Inr (self', shown) \<Rightarrow> self')
      else self)"

fun run ::
  "(real list list list \<Rightarrow> error + real list list) \<Rightarrow> window \<Rightarrow> ui_event list \<Rightarrow> window" where
  "run cv self [] = self"
| "run cv self (e # es) = run cv (dispatch cv self e) es"

subsection \<open>Predicates used in the statements\<close>

text \<open>A display value the renderer can map to a gray level: a finite number in \<open>[0, 1]\<close>.\<close>

fun in_unit :: "npfloat \<Rightarrow> bool" where
  "in_unit (Finite v) = (0 \<le> v \<and> v \<le> 1)"
| "in_unit NaN = False"
| "in_unit PosInf = False"
| "in_unit NegInf = False"

text \<open>
  What every run of the event loop keeps. While no selection is pending there is no
  preview patch, and the axes hold at most the committed rectangle; while one is pending
  there is no committed rectangle, and the axes hold at most the preview. References point
  into the heap. The button is enabled only with an image, a committed rectangle and no
  pending selection, and the canvas is visible only with an image.
\<close>

definition inv :: "window \<Rightarrow> bool" where
  "inv w \<longleftrightarrow>
     (case start_point w of
        None \<Rightarrow> rect_patch w = None \<and>
                (axes_patches w = [] \<or> (\<exists>p. last_rect_patch w = Some p \<and> axes_patches w = [p]))
      | Some a \<Rightarrow> last_rect_patch w = None \<and>
                (axes_patches w = [] \<or> (\<exists>p. rect_patch w = Some p \<and> axes_patches w = [p]))) \<and>
     (\<forall>p. rect_patch w = Some p \<longrightarrow> p < length (patch_heap w)) \<and>
     (\<forall>p. last_rect_patch w = Some p \<longrightarrow> p < length (patch_heap w)) \<and>
     (showProjBtn_enabled w \<longrightarrow>
        image w \<noteq> None \<and> last_rect_patch w \<noteq> None \<and> start_point w = None) \<and>
     (canvas_visible w \<longrightarrow> image w \<noteq> None)"

subsection \<open>Example inputs\<close>

text \<open>The 4x4 array of incrementing values, a 2x2 array with range 10, a constant array.\<close>

definition grid :: "real list list" where
  "grid = [[0, 1, 2, 3], [4, 5, 6, 7], [8, 9, 10, 11], [12, 13, 14, 15]]"

definition ramp :: "real list list" where
  "ramp = [[0, 5], [10, 5]]"

definition flat :: "real list list" where
  "flat = [[7, 7], [7, 7]]"

text \<open>A 2x2 RGB image: red, green, blue and a gray pixel.\<close>

definition rgb :: "real list list list" where
  "rgb = [[[255, 0, 0], [0, 255, 0]], [[0, 0, 255], [100, 100, 100]]]"

text \<open>
  Two instances of the conversion to one channel, for the examples: one that always raises,
  and the ITU-R 601-2 luma transform \<open>L = (299 R + 587 G + 114 B) / 1000\<close> on pixels of three
  channels, which raises on any other pixel.
\<close>

definition no_convert :: "real list list list \<Rightarrow> error + real list list" where
  "no_convert img = Inl TypeError"

definition rgb_to_L :: "real list list list \<Rightarrow> error + real list list" where
  "rgb_to_L img =
     (if list_all (list_all (\<lambda>cs. length cs = 3)) img
      then Inr (map (map (\<lambda>cs. (299 * cs ! 0 + 587 * cs ! 1 + 114 * cs ! 2) / 1000)) img)
      else Inl TypeError)"

text \<open>A mouse event inside the axes at \<open>(x, y)\<close>, and one outside the axes.\<close>

definition click :: "real \<Rightarrow> real \<Rightarrow> mouse_event" where
  "click x y = \<lparr>inaxes = True, xdata = x, ydata = y\<rparr>"

definition outside :: mouse_event where
  "outside = \<lparr>inaxes = False, xdata = 9, ydata = 9\<rparr>"

text \<open>Runs of the event loop from the initial window.\<close>

definition loaded_grid :: window where
  "loaded_grid = run no_convert init_window [SelectImage (Some (Inr (Gray grid)))]"

definition pending_at :: "real \<Rightarrow> real \<Rightarrow> window" where
  "pending_at x y =
     run no_convert init_window [SelectImage (Some (Inr (Gray grid))), ButtonPress (click x y)]"

definition selected_grid :: window where
  "selected_grid =
     run no_convert init_window
       [SelectImage (Some (Inr (Gray grid))), ButtonPress (click 0 1), ButtonPress (click 4 3)]"

definition clicked_twice :: window where
  "clicked_twice =
     run no_convert init_window
       [SelectImage (Some (Inr (Gray grid))), ButtonPress (click 1 1), ButtonPress (click 1 1)]"

definition selected_rgb :: window where
  "selected_rgb =
     run rgb_to_L init_window
       [SelectImage (Some (Inr (Multi rgb))), ButtonPress (click 0 0), ButtonPress (click 2 2)]"

definition reloaded :: window where
  "reloaded =
     run no_convert init_window
       [SelectImage (Some (Inr (Gray grid))), ButtonPress (click 0 1), ButtonPress (click 4 3),
        SelectImage (Some (Inr (Gray ramp)))]"

definition reloaded_pending :: window where
  "reloaded_pending =
     run no_convert init_window
       [SelectImage (Some (Inr (Gray grid))), ButtonPress (click 1 1),
        SelectImage (Some (Inr (Gray ramp)))]"

section \<open>Properties\<close>

subsection \<open>Minimum, maximum, truncation and slices\<close>

lemma np_min_Min: "concat px \<noteq> [] \<Longrightarrow> np_min px = Inr (Min (set (concat px)))"
proof (cases "concat px")
  case Nil
  assume "concat px \<noteq> []"
  with Nil show ?thesis by simp
next
  case (Cons a list)
  have "fold min list a = Min (set (a # list))"
    by (rule Min.set_eq_fold [symmetric])
  with Cons show ?thesis by (simp add: np_min_def)
qed

lemma np_max_Max: "concat px \<noteq> [] \<Longrightarrow> np_max px = Inr (Max (set (concat px)))"
proof (cases "concat px")
  case Nil
  assume "concat px \<noteq> []"
  with Nil show ?thesis by simp
next
  case (Cons a list)
  have "fold max list a = Max (set (a # list))"
    by (rule Max.set_eq_fold [symmetric])
  with Cons show ?thesis by (simp add: np_max_def)
qed

lemma py_int_mono: "a \<le> b \<Longrightarrow> py_int a \<le> py_int b"
proof -
  assume ab: "a \<le> b"
  consider "0 \<le> a" | "a < 0" "0 \<le> b" | "b < 0" using ab by linarith
  then show ?thesis
  proof cases
    case 1
    with ab show ?thesis by (simp add: py_int_def floor_mono)
  next
    case 2
    have "\<lceil>a\<rceil> \<le> 0" using 2(1) by (simp add: ceiling_le_zero)
    moreover have "0 \<le> \<lfloor>b\<rfloor>" using 2(2) by simp
    ultimately have "\<lceil>a\<rceil> \<le> \<lfloor>b\<rfloor>" by (rule order_trans)
    with 2 show ?thesis by (simp add: py_int_def)
  next
    case 3
    with ab show ?thesis by (simp add: py_int_def ceiling_mono)
  qed
qed

lemma slice_index_le: "slice_index n i \<le> n"
  by (auto simp: slice_index_def)

lemma take_drop_nth:
  assumes "l \<le> length xs" "h \<le> length xs"
  shows "take (h - l) (drop l xs) = map (\<lambda>i. xs ! i) [l..<h]"
proof (rule nth_equalityI)
  show "length (take (h - l) (drop l xs)) = length (map (\<lambda>i. xs ! i) [l..<h])"
    using assms by simp
next
  fix i
  assume "i < length (take (h - l) (drop l xs))"
  then have "i < h - l" by simp
  with assms show "take (h - l) (drop l xs) ! i = map (\<lambda>i. xs ! i) [l..<h] ! i"
    by simp
qed

text \<open>A slice holds the elements at the indices between its two normalised bounds.\<close>

lemma py_slice_nth:
  "py_slice lo hi xs =
     map (\<lambda>i. xs ! i) [slice_index (length xs) lo ..< slice_index (length xs) hi]"
  unfolding py_slice_def Let_def
  by (rule take_drop_nth) (rule slice_index_le)+

lemma sum_list_py_slice:
  "sum_list (py_slice lo hi xs) =
     (\<Sum>c = slice_index (length xs) lo ..< slice_index (length xs) hi. xs ! c)"
  by (simp add: py_slice_nth interv_sum_list_conv_sum_set_nat)

text \<open>The sums of the crop, indexed into the array: one sum per row of the row slice.\<close>

lemma pixel_sums_index:
  assumes "rectangular w img"
  shows "pixel_sums img (x0, x1, y0, y1) =
    map (\<lambda>r. \<Sum>c = slice_index w x0 ..< slice_index w x1. img ! r ! c)
      [slice_index (length img) y0 ..< slice_index (length img) y1]"
proof -
  have rows: "length (img ! r) = w" if "r < length img" for r
    using assms that by (simp add: rectangular_def list_all_length)
  have le: "slice_index (length img) y1 \<le> length img" by (rule slice_index_le)
  show ?thesis
    unfolding pixel_sums_def Let_def prod.case
    apply (simp add: py_slice_nth [of y0 y1 img] sum_list_py_slice)
    using le rows by auto
qed

lemma crop_bounds_eq:
  "crop_bounds r =
     (py_int (min (fst (rect_xy r)) (fst (rect_xy r) + rect_width r)),
      py_int (max (fst (rect_xy r)) (fst (rect_xy r) + rect_width r)),
      py_int (min (snd (rect_xy r)) (snd (rect_xy r) + rect_height r)),
      py_int (max (snd (rect_xy r)) (snd (rect_xy r) + rect_height r)))"
  by (simp add: crop_bounds_def get_points_def split: prod.splits)

lemma crop_bounds_ordered:
  assumes "crop_bounds r = (x0, x1, y0, y1)"
  shows "x0 \<le> x1 \<and> y0 \<le> y1"
proof -
  have "py_int (min a b) \<le> py_int (max a b)" for a b :: real
    by (rule py_int_mono) simp
  with assms show ?thesis unfolding crop_bounds_eq by blast
qed

subsection \<open>The display buffer\<close>

lemma rescale_range:
  assumes "concat img \<noteq> []" and "Min (set (concat img)) < Max (set (concat img))"
  shows "rescale img = Inr (map (map (\<lambda>p. Finite ((p - Min (set (concat img))) /
            (Max (set (concat img)) - Min (set (concat img)))))) img)"
  using assms by (simp add: rescale_def np_min_Min np_max_Max np_divide_def del: set_concat)

lemma unit_interval:
  fixes p lo hi :: real
  assumes "lo \<le> p" "p \<le> hi" "lo < hi"
  shows "0 \<le> (p - lo) / (hi - lo) \<and> (p - lo) / (hi - lo) \<le> 1"
  using assms by simp

lemma unit_range:
  fixes img :: "real list list"
  assumes "p \<in> set (concat img)" and "Min (set (concat img)) < Max (set (concat img))"
  shows "0 \<le> (p - Min (set (concat img))) / (Max (set (concat img)) - Min (set (concat img)))"
    and "(p - Min (set (concat img))) / (Max (set (concat img)) - Min (set (concat img))) \<le> 1"
proof -
  have "Min (set (concat img)) \<le> p" "p \<le> Max (set (concat img))"
    using assms(1) by (simp_all del: set_concat)
  from unit_interval [OF this assms(2)]
  show "0 \<le> (p - Min (set (concat img))) / (Max (set (concat img)) - Min (set (concat img)))"
    and "(p - Min (set (concat img))) / (Max (set (concat img)) - Min (set (concat img))) \<le> 1"
    by simp_all
qed

text \<open>
  Every array with an element whose pixels are all equal is rescaled to an array of
  \<open>nan\<close>: each element is \<open>0 / 0\<close>.
\<close>

lemma rescale_constant:
  assumes "concat img \<noteq> []" and "Min (set (concat img)) = Max (set (concat img))"
  shows "rescale img = Inr (map (map (\<lambda>p. NaN)) img)"
proof -
  have "p = Min (set (concat img))" if "p \<in> set (concat img)" for p
  proof -
    have "Min (set (concat img)) \<le> p" "p \<le> Max (set (concat img))"
      using that by (simp_all del: set_concat)
    with assms(2) show ?thesis by simp
  qed
  then have "np_divide (p - Min (set (concat img)))
               (Max (set (concat img)) - Min (set (concat img))) = NaN"
    if "row \<in> set img" "p \<in> set row" for row p
    using that assms(2) by (auto simp: np_divide_def)
  then show ?thesis
    using assms(1) by (simp add: rescale_def np_min_Min np_max_Max del: set_concat)
qed

text \<open>
  C1. Loading a 2D image whose pixels are all equal does not give a defined constant
  buffer: the 2x2 array of sevens is loaded without a raise, and the buffer handed to the
  renderer holds \<open>nan\<close> in every place.
\<close>

theorem browseFile_constant_image_nan:
  "browseFile (Some (Inr (Gray flat))) init_window =
     Inr (init_window\<lparr>image := Some (Gray flat),
            axes_image := Some (ShownGray [[NaN, NaN], [NaN, NaN]]),
            canvas_visible := True\<rparr>)"
  by (simp add: browseFile_def Let_def rescale_def np_min_def np_max_def np_divide_def flat_def
      init_window_def)

text \<open>
  C3. For a 2D image with max > min, loading succeeds and the buffer handed to the renderer
  is \<open>(pixel - min) / (max - min)\<close> in every place, a finite value in \<open>[0, 1]\<close>.
\<close>

theorem browseFile_rescales_to_unit:
  assumes "concat img \<noteq> []" and "Min (set (concat img)) < Max (set (concat img))"
  shows "\<exists>w d. browseFile (Some (Inr (Gray img))) self = Inr w \<and>
           axes_image w = Some (ShownGray d) \<and>
           d = map (map (\<lambda>p. Finite ((p - Min (set (concat img))) /
                 (Max (set (concat img)) - Min (set (concat img)))))) img \<and>
           list_all (list_all in_unit) d"
proof -
  have "list_all (list_all in_unit) (map (map (\<lambda>p. Finite ((p - Min (set (concat img))) /
                 (Max (set (concat img)) - Min (set (concat img)))))) img)"
    using unit_range [OF _ assms(2)] by (auto simp: list_all_iff)
  then show ?thesis
    by (simp add: browseFile_def Let_def rescale_range [OF assms])
qed

text \<open>The array \<open>[[0, 5], [10, 5]]\<close> is shown as \<open>[[0, 1/2], [1, 1/2]]\<close>.\<close>

theorem browseFile_rescales_to_unit_witness:
  "concat ramp \<noteq> [] \<and> Min (set (concat ramp)) < Max (set (concat ramp)) \<and>
   (\<exists>w. browseFile (Some (Inr (Gray ramp))) init_window = Inr w \<and>
      axes_image w = Some (ShownGray [[Finite 0, Finite (1/2)], [Finite 1, Finite (1/2)]]))"
  using browseFile_rescales_to_unit [of ramp init_window]
  by (auto simp: ramp_def)

subsection \<open>The example runs\<close>

lemma selected_grid_fields:
  "image selected_grid = Some (Gray grid)"
  "last_rect_patch selected_grid = Some 0"
  "patch_heap selected_grid =
     [\<lparr>rect_xy = (0, 1), rect_width = 4, rect_height = 2, rect_linewidth = 2\<rparr>]"
  "start_point selected_grid = None"
  "showProjBtn_enabled selected_grid"
  "axes_patches selected_grid = [0]"
  by (simp_all add: selected_grid_def init_window_def browseFile_def rescale_def np_min_def
      np_max_def grid_def after_def imagePressed_def click_def add_patch_def Let_def)

lemma pending_at_fields:
  "start_point (pending_at x y) = Some (x, y)"
  "patch_heap (pending_at x y) = []"
  "last_rect_patch (pending_at x y) = None"
  by (simp_all add: pending_at_def init_window_def browseFile_def rescale_def np_min_def
      np_max_def grid_def after_def imagePressed_def click_def Let_def)

lemma selected_rgb_fields:
  "image selected_rgb = Some (Multi rgb)"
  "last_rect_patch selected_rgb = Some 0"
  "patch_heap selected_rgb =
     [\<lparr>rect_xy = (0, 0), rect_width = 2, rect_height = 2, rect_linewidth = 2\<rparr>]"
  by (simp_all add: selected_rgb_def init_window_def browseFile_def
      after_def imagePressed_def click_def add_patch_def Let_def)

subsection \<open>The projection\<close>

text \<open>
  C2. With a 2D image loaded and a committed rectangle whose truncated bounds are
  \<open>x0, x1, y0, y1\<close>, the trigger raises nothing, leaves the window as it is and hands the
  dialog one sum per row of the crop \<open>img[y0:y1, x0:x1]\<close>: the rows and columns between the
  slice bounds, each bound normalised as slicing does. For bounds that are not negative these
  are the rows \<open>[y0, y1)\<close> and the columns \<open>[x0, x1)\<close>, cut off at the height and the width of
  the image. (A negative bound counts from the end of its axis.)
\<close>

theorem projection_row_sums:
  assumes "image self = Some (Gray img)" and "rectangular w img"
    and "last_rect_patch self = Some p"
    and "crop_bounds (patch_heap self ! p) = (x0, x1, y0, y1)"
  shows "show_projection cv self =
           Inr (self, Some (map (\<lambda>r. \<Sum>c = slice_index w x0 ..< slice_index w x1. img ! r ! c)
                  [slice_index (length img) y0 ..< slice_index (length img) y1])) \<and>
         (0 \<le> x0 \<and> 0 \<le> y0 \<longrightarrow>
            show_projection cv self =
              Inr (self, Some (map (\<lambda>r. \<Sum>c = nat x0 ..< min (nat x1) w. img ! r ! c)
                     [nat y0 ..< min (nat y1) (length img)])))"
proof -
  have general: "show_projection cv self =
           Inr (self, Some (map (\<lambda>r. \<Sum>c = slice_index w x0 ..< slice_index w x1. img ! r ! c)
                  [slice_index (length img) y0 ..< slice_index (length img) y1]))"
    using assms by (simp add: show_projection_def pixel_sums_index)
  have ord: "x0 \<le> x1" "y0 \<le> y1"
    using crop_bounds_ordered [OF assms(4)] by simp_all
  have cols: "{slice_index w x0 ..< slice_index w x1} = {nat x0 ..< min (nat x1) w}" if "0 \<le> x0"
    using that ord by (auto simp: slice_index_def)
  have rows: "[slice_index (length img) y0 ..< slice_index (length img) y1] =
              [nat y0 ..< min (nat y1) (length img)]" if "0 \<le> y0"
  proof (cases "nat y0 \<le> length img")
    case True
    with that ord show ?thesis by (auto simp: slice_index_def)
  next
    case False
    with that ord show ?thesis by (auto simp: slice_index_def)
  qed
  show ?thesis using general cols rows by simp
qed

text \<open>
  The 4x4 array of incrementing values with a rectangle over rows 1 to 3 and columns 0 to
  4: the dialog is handed \<open>[22, 38]\<close>.
\<close>

theorem projection_row_sums_witness:
  "image selected_grid = Some (Gray grid) \<and> rectangular 4 grid \<and>
   last_rect_patch selected_grid = Some 0 \<and>
   crop_bounds (patch_heap selected_grid ! 0) = (0, 4, 1, 3) \<and>
   show_projection no_convert selected_grid = Inr (selected_grid, Some [22, 38])"
proof -
  have b: "crop_bounds (patch_heap selected_grid ! 0) = (0, 4, 1, 3)"
    by (simp add: selected_grid_fields crop_bounds_eq py_int_def)
  have r: "rectangular 4 grid"
    by (simp add: rectangular_def grid_def)
  have s: "map (\<lambda>r. \<Sum>c = slice_index 4 0 ..< slice_index 4 4. grid ! r ! c)
             [slice_index (length grid) 1 ..< slice_index (length grid) 3] = [22, 38]"
    by (simp add: slice_index_def grid_def upt_rec_numeral sum.atLeastLessThan_Suc eval_nat_numeral)
  have "show_projection no_convert selected_grid = Inr (selected_grid, Some [22, 38])"
    using projection_row_sums [OF selected_grid_fields(1) r selected_grid_fields(2) b, of no_convert]
    unfolding s by (rule conjunct1)
  with selected_grid_fields(1,2) r b show ?thesis by blast
qed

text \<open>
  C7. Without an image, or without a committed rectangle, the trigger raises nothing, shows
  no dialog and leaves the whole window as it was.
\<close>

theorem show_projection_without_image_or_rectangle:
  assumes "image self = None \<or> last_rect_patch self = None"
  shows "show_projection cv self = Inr (self, None) \<and> dispatch cv self ShowProjClicked = self"
  using assms by (auto simp: show_projection_def split: option.splits)

theorem show_projection_without_image_or_rectangle_witness:
  "(image init_window = None \<or> last_rect_patch init_window = None) \<and>
   show_projection no_convert init_window = Inr (init_window, None) \<and>
   dispatch no_convert init_window ShowProjClicked = init_window"
  using show_projection_without_image_or_rectangle [of init_window no_convert]
  by (simp add: init_window_def)

text \<open>
  C8. With a 3D image loaded, the trigger first converts it to one channel, and the sums
  handed to the dialog are the row sums of the converted array over the crop: the same
  sums the trigger gives when the converted array is the loaded image.
\<close>

theorem multi_channel_projection:
  assumes "image self = Some (Multi img)" and "last_rect_patch self = Some p"
    and "convert_L img = Inr g" and "rectangular w g"
    and "crop_bounds (patch_heap self ! p) = (x0, x1, y0, y1)"
  shows "\<exists>d. show_projection convert_L self = Inr (self, Some d) \<and>
           show_projection convert_L (self\<lparr>image := Some (Gray g)\<rparr>) =
             Inr (self\<lparr>image := Some (Gray g)\<rparr>, Some d) \<and>
           d = map (\<lambda>r. \<Sum>c = slice_index w x0 ..< slice_index w x1. g ! r ! c)
                 [slice_index (length g) y0 ..< slice_index (length g) y1]"
  using assms by (simp add: show_projection_def pixel_sums_index)

text \<open>
  The 2x2 RGB example under the luma transform: the rows sum to 225.93 and 129.07, not to
  the sums of the raw channel values.
\<close>

theorem multi_channel_projection_witness:
  "image selected_rgb = Some (Multi rgb) \<and> last_rect_patch selected_rgb = Some 0 \<and>
   rgb_to_L rgb = Inr [[15249 / 200, 29937 / 200], [2907 / 100, 100]] \<and>
   rectangular 2 [[15249 / 200, 29937 / 200], [2907 / 100, 100 :: real]] \<and>
   crop_bounds (patch_heap selected_rgb ! 0) = (0, 2, 0, 2) \<and>
   show_projection rgb_to_L selected_rgb = Inr (selected_rgb, Some [22593 / 100, 12907 / 100])"
proof -
  have cv: "rgb_to_L rgb = Inr [[15249 / 200, 29937 / 200], [2907 / 100, 100]]"
    by (simp add: rgb_to_L_def rgb_def)
  have r: "rectangular 2 [[15249 / 200, 29937 / 200], [2907 / 100, 100 :: real]]"
    by (simp add: rectangular_def)
  have b: "crop_bounds (patch_heap selected_rgb ! 0) = (0, 2, 0, 2)"
    by (simp add: selected_rgb_fields crop_bounds_eq py_int_def)
  have s: "map (\<lambda>r. \<Sum>c = slice_index 2 0 ..< slice_index 2 2.
                [[15249 / 200, 29937 / 200], [2907 / 100, 100 :: real]] ! r ! c)
             [slice_index (length [[15249 / 200, 29937 / 200], [2907 / 100, 100 :: real]]) 0 ..<
              slice_index (length [[15249 / 200, 29937 / 200], [2907 / 100, 100 :: real]]) 2] =
           [22593 / 100, 12907 / 100]"
    by (simp add: slice_index_def upt_rec_numeral sum.atLeastLessThan_Suc eval_nat_numeral)
  from multi_channel_projection [of selected_rgb rgb 0 rgb_to_L, OF selected_rgb_fields(1,2) cv r b]
  have "show_projection rgb_to_L selected_rgb =
          Inr (selected_rgb, Some [22593 / 100, 12907 / 100])"
    unfolding s by blast
  with selected_rgb_fields(1,2) cv r b show ?thesis by blast
qed

text \<open>
  C10. A trigger that shows the dialog returns the window it was given: the image, the
  pending start point and the committed rectangle are as before, and so is the window
  after the click is dispatched.
\<close>

theorem show_projection_read_only:
  assumes "show_projection cv self = Inr (self', Some plotted)"
  shows "self' = self \<and> image self' = image self \<and> start_point self' = start_point self \<and>
         last_rect_patch self' = last_rect_patch self \<and> dispatch cv self ShowProjClicked = self"
  using assms by (auto simp: show_projection_def split: option.splits sum.splits)

theorem show_projection_read_only_witness:
  "show_projection no_convert selected_grid = Inr (selected_grid, Some [22, 38]) \<and>
   image selected_grid = Some (Gray grid) \<and> start_point selected_grid = None \<and>
   last_rect_patch selected_grid = Some 0 \<and>
   dispatch no_convert selected_grid ShowProjClicked = selected_grid"
proof -
  have run: "show_projection no_convert selected_grid = Inr (selected_grid, Some [22, 38])"
    by (simp add: show_projection_def selected_grid_fields crop_bounds_eq py_int_def
        pixel_sums_def py_slice_def slice_index_def grid_def)
  from show_projection_read_only [OF run] run selected_grid_fields show ?thesis by simp
qed

subsection \<open>The selection gesture\<close>

lemma imagePressed_outside: "\<not> inaxes ev \<Longrightarrow> imagePressed ev w = w"
  by (simp add: imagePressed_def)

text \<open>The second press: what it commits, whatever else the window holds.\<close>

lemma imagePressed_commit:
  assumes "start_point self = Some (xa, ya)" and "inaxes ev"
  shows "last_rect_patch (imagePressed ev self) = Some (length (patch_heap self))"
    and "patch_heap (imagePressed ev self) ! length (patch_heap self) =
           \<lparr>rect_xy = (xa, ya), rect_width = xdata ev - xa, rect_height = ydata ev - ya,
            rect_linewidth = 2\<rparr>"
    and "start_point (imagePressed ev self) = None"
    and "showProjBtn_enabled (imagePressed ev self)"
    and "rect_patch (imagePressed ev self) = None"
  using assms
  by (auto simp: imagePressed_def add_patch_def patch_remove_def Let_def split: option.splits)

lemma imagePressed_commit_axes:
  assumes "start_point self = Some a" and "inaxes ev" and "rect_patch self = None"
    and "axes_patches self = []"
  shows "axes_patches (imagePressed ev self) = [length (patch_heap self)]"
  using assms
  by (cases a) (simp add: imagePressed_def add_patch_def Let_def)

text \<open>The invariant holds initially and every event keeps it.\<close>

lemma inv_init: "inv init_window"
  by (simp add: inv_def init_window_def)

lemma inv_imagePressed: "inv w \<Longrightarrow> canvas_visible w \<Longrightarrow> inv (imagePressed ev w)"
  unfolding inv_def imagePressed_def add_patch_def patch_remove_def Let_def
  by (auto split: option.splits prod.splits)

lemma inv_imageOnMotion: "inv w \<Longrightarrow> inv (imageOnMotion ev w)"
  unfolding inv_def imageOnMotion_def add_patch_def patch_remove_def Let_def
  by (auto split: option.splits prod.splits)

lemma inv_browseFile: "inv w \<Longrightarrow> inv (after (browseFile picked w))"
  unfolding inv_def browseFile_def after_def Let_def
  by (auto split: option.splits prod.splits sum.splits ndarray.splits)

lemma show_projection_state:
  "(case show_projection cv w of Inl (e, w') \<Rightarrow> w' | Inr (w', shown) \<Rightarrow> w') = w"
  by (simp add: show_projection_def split: option.splits sum.splits ndarray.splits)

lemma inv_dispatch: "inv w \<Longrightarrow> inv (dispatch cv w e)"
  by (cases e) (simp_all add: inv_imagePressed inv_imageOnMotion inv_browseFile
      imageReleased_def show_projection_state)

lemma inv_run: "inv w \<Longrightarrow> inv (run cv w es)"
  by (induction es arbitrary: w) (simp_all add: inv_dispatch)

text \<open>
  In every reachable state an enabled button means an image, a committed rectangle and no
  pending selection.
\<close>

lemma enabled_implies_image_and_rectangle:
  assumes "showProjBtn_enabled (run cv init_window es)"
  shows "image (run cv init_window es) \<noteq> None \<and>
         last_rect_patch (run cv init_window es) \<noteq> None \<and>
         start_point (run cv init_window es) = None"
  using inv_run [OF inv_init, of cv es] assms by (simp add: inv_def)

text \<open>The first press from a reachable state with no selection pending.\<close>

lemma imagePressed_begin:
  assumes "inv self" and "start_point self = None" and "inaxes ev"
  shows "start_point (imagePressed ev self) = Some (xdata ev, ydata ev)"
    and "last_rect_patch (imagePressed ev self) = None"
    and "rect_patch (imagePressed ev self) = None"
    and "axes_patches (imagePressed ev self) = []"
    and "patch_heap (imagePressed ev self) = patch_heap self"
    and "\<not> showProjBtn_enabled (imagePressed ev self)"
  using assms
  by (auto simp: inv_def imagePressed_def patch_remove_def Let_def split: option.splits)

text \<open>
  C6. From every reachable state with no selection pending, a press inside the axes records
  the start point (and takes the committed rectangle away), and a second press inside the
  axes clears the start point and leaves one committed rectangle, spanned by the two
  points, as the only patch on the axes, with the button enabled. A press outside the axes
  changes nothing in any state.
\<close>

theorem two_presses_commit_one_rectangle:
  assumes "self = run cv init_window es" and "start_point self = None"
    and "inaxes e1" and "inaxes e2"
  shows "start_point (imagePressed e1 self) = Some (xdata e1, ydata e1) \<and>
         last_rect_patch (imagePressed e1 self) = None \<and>
         axes_patches (imagePressed e1 self) = [] \<and>
         start_point (imagePressed e2 (imagePressed e1 self)) = None \<and>
         last_rect_patch (imagePressed e2 (imagePressed e1 self)) = Some (length (patch_heap self)) \<and>
         axes_patches (imagePressed e2 (imagePressed e1 self)) = [length (patch_heap self)] \<and>
         patch_heap (imagePressed e2 (imagePressed e1 self)) ! length (patch_heap self) =
           \<lparr>rect_xy = (xdata e1, ydata e1), rect_width = xdata e2 - xdata e1,
            rect_height = ydata e2 - ydata e1, rect_linewidth = 2\<rparr> \<and>
         showProjBtn_enabled (imagePressed e2 (imagePressed e1 self)) \<and>
         (\<not> inaxes e \<longrightarrow> imagePressed e w = w)"
proof -
  have "inv self"
    unfolding assms(1) by (rule inv_run) (rule inv_init)
  note first = imagePressed_begin [OF this assms(2,3)]
  note second = imagePressed_commit [OF first(1) assms(4)]
  note axes = imagePressed_commit_axes [OF first(1) assms(4) first(3,4)]
  show ?thesis
    using first second axes by (simp add: imagePressed_outside)
qed

theorem two_presses_commit_one_rectangle_witness:
  "loaded_grid = run no_convert init_window [SelectImage (Some (Inr (Gray grid)))] \<and>
   start_point loaded_grid = None \<and> inaxes (click 0 1) \<and> inaxes (click 4 3) \<and>
   start_point (imagePressed (click 0 1) loaded_grid) = Some (0, 1) \<and>
   start_point (imagePressed (click 4 3) (imagePressed (click 0 1) loaded_grid)) = None \<and>
   last_rect_patch (imagePressed (click 4 3) (imagePressed (click 0 1) loaded_grid)) = Some 0 \<and>
   axes_patches (imagePressed (click 4 3) (imagePressed (click 0 1) loaded_grid)) = [0] \<and>
   patch_heap (imagePressed (click 4 3) (imagePressed (click 0 1) loaded_grid)) ! 0 =
     \<lparr>rect_xy = (0, 1), rect_width = 4, rect_height = 2, rect_linewidth = 2\<rparr> \<and>
   \<not> inaxes outside \<and> imagePressed outside selected_grid = selected_grid"
  (is "?start \<and> ?rest")
proof -
  have s: "start_point loaded_grid = None" and h: "patch_heap loaded_grid = []"
    by (simp_all add: loaded_grid_def init_window_def browseFile_def rescale_def np_min_def
      np_max_def grid_def after_def Let_def)
  have c: "inaxes (click 0 1)" "inaxes (click 4 3)" "\<not> inaxes outside"
    by (simp_all add: click_def outside_def)
  from two_presses_commit_one_rectangle [OF loaded_grid_def s c(1,2), of outside selected_grid]
  have ?rest
    using s c by (simp add: h click_def)
  with loaded_grid_def show ?thesis by (rule conjI)
qed

text \<open>
  C9, amended. The rectangle committed from two click points has the truncated bounds
  \<open>x0 = int (min xa xb)\<close>, \<open>x1 = int (max xa xb)\<close>, \<open>y0 = int (min ya yb)\<close>,
  \<open>y1 = int (max ya yb)\<close>, with \<open>x0 \<le> x1\<close> and \<open>y0 \<le> y1\<close>, and the bounds are the same when the
  two points are clicked in the other order.
\<close>

theorem committed_bounds_normalised:
  assumes "start_point s = Some (xa, ya)" and "inaxes eb" and "xdata eb = xb" and "ydata eb = yb"
    and "start_point t = Some (xb, yb)" and "inaxes ea" and "xdata ea = xa" and "ydata ea = ya"
  shows "\<exists>p q x0 x1 y0 y1.
           last_rect_patch (imagePressed eb s) = Some p \<and>
           crop_bounds (patch_heap (imagePressed eb s) ! p) = (x0, x1, y0, y1) \<and>
           last_rect_patch (imagePressed ea t) = Some q \<and>
           crop_bounds (patch_heap (imagePressed ea t) ! q) = (x0, x1, y0, y1) \<and>
           x0 = py_int (min xa xb) \<and> x1 = py_int (max xa xb) \<and>
           y0 = py_int (min ya yb) \<and> y1 = py_int (max ya yb) \<and>
           x0 \<le> x1 \<and> y0 \<le> y1"
proof -
  have le: "py_int (min a b) \<le> py_int (max a b)" for a b :: real
    by (rule py_int_mono) simp
  have 1: "crop_bounds (patch_heap (imagePressed eb s) ! length (patch_heap s)) =
      (py_int (min xa xb), py_int (max xa xb), py_int (min ya yb), py_int (max ya yb))"
    using assms(3,4) by (simp add: imagePressed_commit(2) [OF assms(1,2)] crop_bounds_eq)
  have 2: "crop_bounds (patch_heap (imagePressed ea t) ! length (patch_heap t)) =
      (py_int (min xa xb), py_int (max xa xb), py_int (min ya yb), py_int (max ya yb))"
    using assms(7,8)
    by (simp add: imagePressed_commit(2) [OF assms(5,6)] crop_bounds_eq min.commute max.commute)
  show ?thesis
    using 1 2 imagePressed_commit(1) [OF assms(1,2)] imagePressed_commit(1) [OF assms(5,6)] le
    by simp
qed

text \<open>
  From (3, 3) to (0, 1) and from (0, 1) to (3, 3): the bounds are (0, 3, 1, 3) both times.
\<close>

theorem committed_bounds_normalised_witness:
  "start_point (pending_at 3 3) = Some (3, 3) \<and> inaxes (click 0 1) \<and>
   xdata (click 0 1) = 0 \<and> ydata (click 0 1) = 1 \<and>
   start_point (pending_at 0 1) = Some (0, 1) \<and> inaxes (click 3 3) \<and>
   xdata (click 3 3) = 3 \<and> ydata (click 3 3) = 3 \<and>
   crop_bounds (patch_heap (imagePressed (click 0 1) (pending_at 3 3)) ! 0) = (0, 3, 1, 3) \<and>
   crop_bounds (patch_heap (imagePressed (click 3 3) (pending_at 0 1)) ! 0) = (0, 3, 1, 3)"
proof -
  have c: "inaxes (click 0 1)" "xdata (click 0 1) = 0" "ydata (click 0 1) = 1"
    "inaxes (click 3 3)" "xdata (click 3 3) = 3" "ydata (click 3 3) = 3"
    by (simp_all add: click_def)
  have p: "last_rect_patch (imagePressed (click 0 1) (pending_at 3 3)) = Some 0"
    "last_rect_patch (imagePressed (click 3 3) (pending_at 0 1)) = Some 0"
    by (simp_all add: imagePressed_commit(1) [OF pending_at_fields(1)] c pending_at_fields(2))
  from committed_bounds_normalised [OF pending_at_fields(1) c(1,2,3) pending_at_fields(1) c(4,5,6)]
  have "crop_bounds (patch_heap (imagePressed (click 0 1) (pending_at 3 3)) ! 0) = (0, 3, 1, 3) \<and>
   crop_bounds (patch_heap (imagePressed (click 3 3) (pending_at 0 1)) ! 0) = (0, 3, 1, 3)"
    unfolding p by (auto simp: py_int_def)
  with pending_at_fields(1) c show ?thesis by simp
qed

text \<open>
  C9 as stated fails: two presses at the same point (1, 1) commit a rectangle whose bounds
  are (1, 1, 1, 1), so \<open>x0 < x1\<close> does not hold.
\<close>

theorem degenerate_rectangle_counterexample:
  "last_rect_patch clicked_twice = Some 0 \<and>
   crop_bounds (patch_heap clicked_twice ! 0) = (1, 1, 1, 1) \<and>
   \<not> fst (crop_bounds (patch_heap clicked_twice ! 0))
       < fst (snd (crop_bounds (patch_heap clicked_twice ! 0)))"
  by (simp add: clicked_twice_def init_window_def browseFile_def rescale_def np_min_def
      np_max_def grid_def after_def imagePressed_def click_def add_patch_def Let_def
      crop_bounds_eq py_int_def)

subsection \<open>Loading over a selection\<close>

text \<open>
  \<open>browseFile\<close> assigns none of the selection fields: whatever it is given and however it
  ends, the pending start point, the preview and the committed rectangle stay as they were.
\<close>

lemma browseFile_selection_frame:
  "start_point (after (browseFile picked self)) = start_point self \<and>
   rect_patch (after (browseFile picked self)) = rect_patch self \<and>
   last_rect_patch (after (browseFile picked self)) = last_rect_patch self \<and>
   patch_heap (after (browseFile picked self)) = patch_heap self"
  by (simp add: browseFile_def after_def Let_def split: option.splits sum.splits ndarray.splits)

text \<open>
  C4. After a load, two presses and a second load, an image is loaded and
  \<open>last_rect_patch\<close> still holds the rectangle committed on the first image, while the
  button is disabled: the button is not enabled exactly when both exist.
\<close>

theorem reload_keeps_committed_rectangle_disabled:
  "image reloaded = Some (Gray ramp) \<and> last_rect_patch reloaded = Some 0 \<and>
   \<not> showProjBtn_enabled reloaded"
  by (simp add: reloaded_def init_window_def browseFile_def rescale_def np_min_def
      np_max_def grid_def ramp_def after_def imagePressed_def click_def add_patch_def Let_def
      np_divide_def)

text \<open>
  C5. A load while a selection is pending replaces the image, resets the status text and
  disables the button, but the pending start point (1, 1) of the previous image is still
  there afterwards.
\<close>

theorem reload_keeps_pending_start_point:
  "image reloaded_pending = Some (Gray ramp) \<and> coord_label reloaded_pending = ''Mouse: '' \<and>
   \<not> showProjBtn_enabled reloaded_pending \<and> start_point reloaded_pending = Some (1, 1)"
  by (simp add: reloaded_pending_def init_window_def browseFile_def rescale_def np_min_def
      np_max_def grid_def ramp_def after_def imagePressed_def click_def add_patch_def Let_def
      np_divide_def)

end
